theory Spec2Isabelle
  imports Main "HOL-Library.Sublist"
begin

section \<open>VRChat Log Monitor: the embedding of VRChatLogMonitor.py\<close>

text \<open>
  The program tails a log file, looks for configured event keys in every new line,
  and for a line that holds one: timestamps it, appends it to a dated output file,
  shows it in a text widget and queues it for a Discord bot. The definitions below
  follow VRChatLogMonitor.py function by function and keep its names. Text is a
  \<open>string\<close>; the effects of the program (clock reads, files, the widget, the queue,
  the console, the Discord channel) are fields of one explicit \<open>world\<close> record that
  every operation takes and returns. File operations are taken to succeed: the
  source has no handler for an I/O error.
\<close>

subsection \<open>Configuration (the module globals of lines 13 to 22)\<close>

text \<open>
  \<open>event_data\<close> is the dict of one event; \<open>color = None\<close> is a dict without
  the key \<open>color\<close>. In \<open>discord_cfg\<close>, \<open>None\<close> is again an absent key;
  \<open>channel_id\<close> is a JSON integer, on which Python's \<open>int\<close> is the identity.
  \<open>event_configs\<close> is an association list: a Python dict iterates in insertion order.
\<close>

record event_data =
  color :: "string option"

record discord_cfg =
  enabled :: "bool option"
  bot_token :: "string option"
  channel_id :: "int option"

record config =
  log_dir :: string
  log_pattern :: string
  output_log_prefix :: string
  discord_config :: discord_cfg
  event_configs :: "(string \<times> event_data) list"

subsection \<open>Python string operations\<close>

text \<open>\<open>k in line\<close> on two Python strings: \<open>k\<close> occurs in \<open>line\<close> at some position.\<close>

fun str_contains :: "string \<Rightarrow> string \<Rightarrow> bool" where
  "str_contains k [] = (k = [])"
| "str_contains k (c # cs) = (prefix k (c # cs) \<or> str_contains k cs)"

text \<open>\<open>s.lstrip(c)\<close> for a one-character argument: every leading \<open>c\<close> is removed.\<close>

definition lstrip :: "char \<Rightarrow> string \<Rightarrow> string" where
  "lstrip c s = dropWhile (\<lambda>x. x = c) s"

subsection \<open>The clock and \<open>strftime\<close>\<close>

text \<open>
  A \<open>datetime\<close> value as \<open>datetime.datetime.now()\<close> returns it, to the second.
  \<open>valid_datetime\<close> is the range of the fields of a Python \<open>datetime\<close>.
\<close>

record datetime =
  year :: nat
  month :: nat
  day :: nat
  hour :: nat
  minute :: nat
  second :: nat

definition valid_datetime :: "datetime \<Rightarrow> bool" where
  "valid_datetime t =
     (1 \<le> year t \<and> year t \<le> 9999 \<and> 1 \<le> month t \<and> month t \<le> 12 \<and>
      1 \<le> day t \<and> day t \<le> 31 \<and> hour t < 24 \<and> minute t < 60 \<and> second t < 60)"

text \<open>The calendar date of a \<open>datetime\<close>, as \<open>t.date()\<close> gives it.\<close>

definition date_of :: "datetime \<Rightarrow> nat \<times> nat \<times> nat" where
  "date_of t = (year t, month t, day t)"

definition digit_char :: "nat \<Rightarrow> char" where
  "digit_char d = char_of (48 + d)"

text \<open>The decimal digits of a number, most significant first.\<close>

fun str_nat :: "nat \<Rightarrow> string" where
  "str_nat n = (if n < 10 then [digit_char n] else str_nat (n div 10) @ [digit_char (n mod 10)])"

declare str_nat.simps [simp del]

text \<open>
  A \<open>strftime\<close> field of width \<open>w\<close> padded with zeros, as the Python
  library documents the directives: \<open>%Y\<close> has width 4 (0001 to 9999);
  \<open>%m\<close>, \<open>%d\<close>, \<open>%H\<close>, \<open>%M\<close> and \<open>%S\<close> have width 2.
\<close>

definition zero_padded :: "nat \<Rightarrow> nat \<Rightarrow> string" where
  "zero_padded w n = replicate (w - length (str_nat n)) (CHR ''0'') @ str_nat n"

text \<open>\<open>strftime("%Y-%m-%d")\<close>\<close>

definition strftime_date :: "datetime \<Rightarrow> string" where
  "strftime_date t =
     zero_padded 4 (year t) @ ''-'' @ zero_padded 2 (month t) @ ''-'' @ zero_padded 2 (day t)"

text \<open>\<open>strftime("%Y-%m-%d %H:%M:%S")\<close>\<close>

definition strftime_datetime :: "datetime \<Rightarrow> string" where
  "strftime_datetime t =
     zero_padded 4 (year t) @ ''-'' @ zero_padded 2 (month t) @ ''-'' @ zero_padded 2 (day t) @
     '' '' @ zero_padded 2 (hour t) @ '':'' @ zero_padded 2 (minute t) @ '':'' @
     zero_padded 2 (second t)"

subsection \<open>The world the program acts on\<close>

text \<open>
  \<open>clock_reads\<close> counts the calls of \<open>datetime.datetime.now()\<close> made so far; the
  clock itself is a function from the number of the call to the value it returns.
  \<open>files\<close> maps a file name to the text of the file. \<open>text_widget\<close> is the list of
  the operations performed on the widget. \<open>discord_message_queue\<close> is the FIFO queue
  of (message, hex colour) pairs, oldest first. \<open>console\<close> is what was printed,
  \<open>send_calls\<close> the calls of \<open>channel.send\<close> made (channel, embed description,
  embed colour), \<open>delivered\<close> those of them that did not raise, and \<open>sleeps\<close>
  counts the calls of \<open>asyncio.sleep(1)\<close>.
\<close>

type_synonym channel = nat

datatype widget_op = Insert string string | See_End

datatype exn = ValueError | SendFailure | LoginFailure

datatype console_line = Printed string | Printed_Error string exn

record world =
  clock_reads :: nat
  files :: "string \<rightharpoonup> string"
  text_widget :: "widget_op list"
  discord_message_queue :: "(string \<times> string) list"
  console :: "console_line list"
  send_calls :: "(channel \<times> string \<times> int) list"
  delivered :: "(channel \<times> string \<times> int) list"
  sleeps :: nat

type_synonym clock = "nat \<Rightarrow> datetime"

definition now :: "clock \<Rightarrow> world \<Rightarrow> datetime \<times> world" where
  "now clk w = (clk (clock_reads w), w\<lparr>clock_reads := Suc (clock_reads w)\<rparr>)"

text \<open>\<open>open(name, "a")\<close>, \<open>write(text)\<close>, close: the file is created when missing.\<close>

definition append_file :: "string \<Rightarrow> string \<Rightarrow> world \<Rightarrow> world" where
  "append_file name txt w =
     w\<lparr>files := (files w)(name \<mapsto> (case files w name of None \<Rightarrow> [] | Some old \<Rightarrow> old) @ txt)\<rparr>"

definition print_line :: "console_line \<Rightarrow> world \<Rightarrow> world" where
  "print_line l w = w\<lparr>console := console w @ [l]\<rparr>"

subsection \<open>\<open>get_latest_log_file\<close> (lines 28 to 39)\<close>

text \<open>
  The operating system as the function sees it: \<open>os.path.expandvars\<close>,
  \<open>os.path.join\<close>, \<open>glob.glob\<close> (its result in enumeration order) and
  \<open>os.path.getmtime\<close>, each a parameter.
\<close>

record 't os_env =
  expandvars :: "string \<Rightarrow> string"
  path_join :: "string \<Rightarrow> string \<Rightarrow> string"
  glob :: "string \<Rightarrow> string list"
  getmtime :: "string \<Rightarrow> 't"

text \<open>
  Python's \<open>max(xs, key=f)\<close> on a non-empty sequence: it keeps the best item seen so
  far and replaces it only by an item whose key is strictly greater.
\<close>

fun max_key :: "('a \<Rightarrow> 'k::linorder) \<Rightarrow> 'a \<Rightarrow> 'a list \<Rightarrow> 'a" where
  "max_key key best [] = best"
| "max_key key best (x # xs) =
     (if key best < key x then max_key key x xs else max_key key best xs)"

definition get_latest_log_file :: "('t::linorder) os_env \<Rightarrow> config \<Rightarrow> string option" where
  "get_latest_log_file os cfg =
     (let log_dir_expanded = expandvars os (log_dir cfg);
          pattern = path_join os log_dir_expanded (log_pattern cfg);
          matching_files = glob os pattern
      in case matching_files of
           [] \<Rightarrow> None
         | f # fs \<Rightarrow> Some (max_key (getmtime os) f fs))"

subsection \<open>\<open>get_output_log_filename\<close> and \<open>enqueue_discord_message\<close> (lines 41 to 52)\<close>

definition get_output_log_filename :: "config \<Rightarrow> clock \<Rightarrow> world \<Rightarrow> string \<times> world" where
  "get_output_log_filename cfg clk w =
     (let (t, w1) = now clk w;
          current_date = strftime_date t
      in (output_log_prefix cfg @ current_date @ ''.txt'', w1))"

definition enqueue_discord_message :: "config \<Rightarrow> string \<Rightarrow> string \<Rightarrow> world \<Rightarrow> world" where
  "enqueue_discord_message cfg message hex_color w =
     (if enabled (discord_config cfg) = Some True
      then w\<lparr>discord_message_queue := discord_message_queue w @ [(message, hex_color)]\<rparr>
      else w)"

subsection \<open>\<open>LogMonitor.process_line\<close> (lines 130 to 153)\<close>

text \<open>The body of the \<open>if event_name in line:\<close> branch, lines 141 to 152.\<close>

definition dispatch :: "config \<Rightarrow> clock \<Rightarrow> string \<Rightarrow> event_data \<Rightarrow> string \<Rightarrow> world \<Rightarrow> world" where
  "dispatch cfg clk event_name data line w =
     (let (t, w1) = now clk w;
          timestamp = strftime_datetime t;
          output_line = timestamp @ '' - '' @ line;
          (output_log_filename, w2) = get_output_log_filename cfg clk w1;
          w3 = append_file output_log_filename output_line w2;
          w4 = w3\<lparr>text_widget := text_widget w3 @ [Insert output_line event_name]\<rparr>;
          w5 = w4\<lparr>text_widget := text_widget w4 @ [See_End]\<rparr>;
          hex_color = (case color data of None \<Rightarrow> ''#FFFFFF'' | Some c \<Rightarrow> c)
      in enqueue_discord_message cfg output_line hex_color w5)"

text \<open>The \<open>for\<close> loop over \<open>event_configs.items()\<close>, left by \<open>break\<close> after the first hit.\<close>

fun process_events :: "config \<Rightarrow> clock \<Rightarrow> (string \<times> event_data) list \<Rightarrow> string \<Rightarrow> world \<Rightarrow> world" where
  "process_events cfg clk [] line w = w"
| "process_events cfg clk ((event_name, data) # rest) line w =
     (if str_contains event_name line then dispatch cfg clk event_name data line w
      else process_events cfg clk rest line w)"

definition process_line :: "config \<Rightarrow> clock \<Rightarrow> string \<Rightarrow> world \<Rightarrow> world" where
  "process_line cfg clk line w = process_events cfg clk (event_configs cfg) line w"

subsection \<open>Python's \<open>int(s, 16)\<close>\<close>

text \<open>
  The text is ASCII. \<open>int(s, 16)\<close> skips white space on both sides, reads an
  optional sign, an optional prefix \<open>0x\<close> or \<open>0X\<close> (after which one underscore may
  stand), and then hexadecimal digits with single underscores between them; anything
  else raises \<open>ValueError\<close>, here \<open>None\<close>.
\<close>

definition is_space :: "char \<Rightarrow> bool" where
  "is_space c = (c \<in> set [CHR '' '', CHR 0x09, CHR 0x0A, CHR 0x0B, CHR 0x0C, CHR 0x0D])"

definition digit_value :: "char \<Rightarrow> nat option" where
  "digit_value c =
     (let n = (of_char c :: nat) in
      if 48 \<le> n \<and> n \<le> 57 then Some (n - 48)
      else if 97 \<le> n \<and> n \<le> 122 then Some (n - 87)
      else if 65 \<le> n \<and> n \<le> 90 then Some (n - 55)
      else None)"

text \<open>
  The scan of the digits: \<open>acc\<close> is the value read so far, \<open>prev_us\<close> says that the
  previous character was an underscore. It stops at the first character that is
  neither a digit of the base nor an underscore and returns the value with the rest
  of the text; two underscores in a row or one at the end are errors.
\<close>

fun scan_digits :: "nat \<Rightarrow> nat \<Rightarrow> bool \<Rightarrow> string \<Rightarrow> (nat \<times> string) option" where
  "scan_digits b acc prev_us [] = (if prev_us then None else Some (acc, []))"
| "scan_digits b acc prev_us (c # cs) =
     (if c = CHR ''_'' then (if prev_us then None else scan_digits b acc True cs)
      else case digit_value c of
             None \<Rightarrow> if prev_us then None else Some (acc, c # cs)
           | Some d \<Rightarrow>
               if d < b then scan_digits b (acc * b + d) False cs
               else if prev_us then None else Some (acc, c # cs))"

definition is_digit_of :: "nat \<Rightarrow> char \<Rightarrow> bool" where
  "is_digit_of b c = (case digit_value c of None \<Rightarrow> False | Some d \<Rightarrow> d < b)"

definition skip_hex_prefix :: "string \<Rightarrow> string" where
  "skip_hex_prefix s =
     (case s of
        c0 # c1 # rest \<Rightarrow>
          if c0 = CHR ''0'' \<and> (c1 = CHR ''x'' \<or> c1 = CHR ''X'')
          then (case rest of u # rest' \<Rightarrow> if u = CHR ''_'' then rest' else rest | [] \<Rightarrow> rest)
          else s
      | _ \<Rightarrow> s)"

definition py_int16 :: "string \<Rightarrow> int option" where
  "py_int16 s =
     (let s1 = dropWhile is_space s;
          (negative, s2) = (case s1 of
                              c # cs \<Rightarrow> if c = CHR ''+'' then (False, cs)
                                        else if c = CHR ''-'' then (True, cs) else (False, s1)
                            | [] \<Rightarrow> (False, s1));
          s3 = skip_hex_prefix s2
      in case s3 of
           [] \<Rightarrow> None
         | c # cs \<Rightarrow>
             if \<not> is_digit_of 16 c then None
             else (case scan_digits 16 0 False s3 of
                     None \<Rightarrow> None
                   | Some (v, rest) \<Rightarrow>
                       if dropWhile is_space rest = []
                       then Some (if negative then - int v else int v)
                       else None))"

subsection \<open>The Discord bot (lines 58 to 94)\<close>

text \<open>
  The Discord client as the program sees it: the text printed for the logged-in
  user, whether a token logs in, the channels the client knows by id, and whether
  the k-th call of \<open>channel.send\<close> (counted from 0) raises. A Discord id is a
  positive number, so \<open>get_channel\<close> finds nothing at an id that is not.
\<close>

record notifier =
  user_repr :: string
  login_ok :: "string \<Rightarrow> bool"
  channels :: "nat \<Rightarrow> channel option"
  send_raises :: "nat \<Rightarrow> bool"

definition get_channel :: "notifier \<Rightarrow> int \<Rightarrow> channel option" where
  "get_channel nt cid = (if cid \<le> 0 then None else channels nt (nat cid))"

text \<open>The \<open>else\<close> branch of the loop body, lines 78 to 84, for one dequeued item.\<close>

definition forward_item :: "notifier \<Rightarrow> channel \<Rightarrow> string \<times> string \<Rightarrow> world \<Rightarrow> world" where
  "forward_item nt chan item w =
     (case item of (message, hex_color) \<Rightarrow>
        (case py_int16 (lstrip (CHR ''#'') hex_color) of
           None \<Rightarrow> print_line (Printed_Error ''Error sending message to Discord:'' ValueError) w
         | Some color_value \<Rightarrow>
             (let w1 = w\<lparr>send_calls := send_calls w @ [(chan, message, color_value)]\<rparr>
              in if send_raises nt (length (send_calls w))
                 then print_line (Printed_Error ''Error sending message to Discord:'' SendFailure) w1
                 else w1\<lparr>delivered := delivered w1 @ [(chan, message, color_value)]\<rparr>)))"

text \<open>One pass through the body of \<open>while not self.is_closed()\<close>, lines 72 to 84.\<close>

definition forwarder_iteration :: "notifier \<Rightarrow> channel \<Rightarrow> world \<Rightarrow> world" where
  "forwarder_iteration nt chan w =
     (case discord_message_queue w of
        [] \<Rightarrow> w\<lparr>sleeps := Suc (sleeps w)\<rparr>
      | item # rest \<Rightarrow> forward_item nt chan item (w\<lparr>discord_message_queue := rest\<rparr>))"

text \<open>
  The loop runs until the client is closed, which the program does not decide:
  \<open>n\<close> is the number of passes made before \<open>is_closed()\<close> turns true.
\<close>

fun forwarder_loop :: "notifier \<Rightarrow> channel \<Rightarrow> nat \<Rightarrow> world \<Rightarrow> world" where
  "forwarder_loop nt chan 0 w = w"
| "forwarder_loop nt chan (Suc n) w = forwarder_loop nt chan n (forwarder_iteration nt chan w)"

definition send_messages_from_queue :: "discord_cfg \<Rightarrow> notifier \<Rightarrow> nat \<Rightarrow> world \<Rightarrow> exn + world" where
  "send_messages_from_queue dc nt n w =
     (let cid = (case channel_id dc of None \<Rightarrow> 0 | Some i \<Rightarrow> i)
      in case get_channel nt cid of
           None \<Rightarrow> Inr (print_line (Printed ''Channel not found. Check your channel_id in config.'') w)
         | Some chan \<Rightarrow> Inr (forwarder_loop nt chan n w))"

text \<open>
  \<open>start_discord_bot\<close> with \<open>client.run\<close>, \<open>on_ready\<close> and the task it creates;
  \<open>Inl\<close> is an exception that ends the bot's thread. \<open>not bot_token\<close> holds for an
  absent token and for the empty string.
\<close>

definition start_discord_bot :: "discord_cfg \<Rightarrow> notifier \<Rightarrow> nat \<Rightarrow> world \<Rightarrow> exn + world" where
  "start_discord_bot dc nt n w =
     (case bot_token dc of
        None \<Rightarrow> Inr (print_line (Printed ''No bot token provided in config.'') w)
      | Some tok \<Rightarrow>
          if tok = [] then Inr (print_line (Printed ''No bot token provided in config.'') w)
          else if \<not> login_ok nt tok then Inl LoginFailure
          else send_messages_from_queue dc nt n
                 (print_line (Printed (''Logged in as '' @ user_repr nt)) w))"

subsection \<open>Concrete configurations and worlds\<close>

text \<open>
  A configuration with two event keys, the second a substring of the first, with
  Discord enabled; the same with Discord left out; a world in which nothing has
  happened yet; a clock that stands at noon; and a clock whose first reading is the
  last second of 2024 and whose later readings are the first second of 2025.
\<close>

definition demo_config :: config where
  "demo_config =
     \<lparr>log_dir = ''%APPDATA%/VRChat'', log_pattern = ''output_log_*.txt'',
      output_log_prefix = ''parsed_log_'',
      discord_config = \<lparr>enabled = Some True, bot_token = Some ''token'', channel_id = Some 42\<rparr>,
      event_configs = [(''OnPlayerJoined'', \<lparr>color = Some ''#00FF00''\<rparr>),
                       (''OnPlayer'', \<lparr>color = None\<rparr>)]\<rparr>"

definition quiet_config :: config where
  "quiet_config =
     demo_config\<lparr>discord_config := \<lparr>enabled = None, bot_token = None, channel_id = None\<rparr>\<rparr>"

definition empty_world :: world where
  "empty_world =
     \<lparr>clock_reads = 0, files = Map.empty, text_widget = [], discord_message_queue = [],
      console = [], send_calls = [], delivered = [], sleeps = 0\<rparr>"

definition noon :: datetime where
  "noon = \<lparr>year = 2025, month = 3, day = 14, hour = 12, minute = 0, second = 5\<rparr>"


definition clock_at :: "datetime \<Rightarrow> clock" where
  "clock_at t k = t"

definition midnight_clock :: clock where
  "midnight_clock k =
     (if k = 0 then \<lparr>year = 2024, month = 12, day = 31, hour = 23, minute = 59, second = 59\<rparr>
      else \<lparr>year = 2025, month = 1, day = 1, hour = 0, minute = 0, second = 0\<rparr>)"

text \<open>
  Three log lines: one that holds both keys, one that holds only the second key,
  and one that holds none. The first ends with a line feed.
\<close>

definition join_line :: string where
  "join_line = ''12:00:00 OnPlayerJoined User123'' @ [CHR 0x0A]"

definition left_line :: string where
  "left_line = ''12:00:07 OnPlayerLeft User123''"

definition plain_line :: string where
  "plain_line = ''12:00:09 onplayerjoined in lower case''"

text \<open>
  A directory with two log files: in \<open>tie_os\<close> both have the same modification
  time, in \<open>newer_os\<close> the second is the newer one, and \<open>bare_os\<close> has no file.
\<close>

definition tie_os :: "int os_env" where
  "tie_os =
     \<lparr>expandvars = (\<lambda>s. s), path_join = (\<lambda>d p. d @ ''/'' @ p),
      glob = (\<lambda>p. [''output_log_01.txt'', ''output_log_02.txt'']),
      getmtime = (\<lambda>f. 100)\<rparr>"

definition newer_os :: "int os_env" where
  "newer_os = tie_os\<lparr>getmtime := (\<lambda>f. if f = ''output_log_02.txt'' then 200 else 100)\<rparr>"

definition bare_os :: "int os_env" where
  "bare_os = tie_os\<lparr>glob := (\<lambda>p. [])\<rparr>"

text \<open>
  A Discord client that knows channel 42 and whose second call of
  \<open>channel.send\<close> raises, and a world whose queue holds three items.
\<close>

definition demo_notifier :: notifier where
  "demo_notifier =
     \<lparr>user_repr = ''LogBot'', login_ok = (\<lambda>tok. True),
      channels = (\<lambda>i. if i = 42 then Some 7 else None),
      send_raises = (\<lambda>k. k = 1)\<rparr>"

definition three_items :: "(string \<times> string) list" where
  "three_items = [(''A'', ''#00FF00''), (''B'', ''#0000FF''), (''C'', ''FF0000'')]"

definition bad_color_items :: "(string \<times> string) list" where
  "bad_color_items = [(''A'', ''green''), (''C'', ''#FF0000'')]"

section \<open>Properties\<close>

subsection \<open>Digits and \<open>strftime\<close>\<close>

lemma digit_char_simps:
  "digit_char 0 = CHR ''0''" "digit_char 1 = CHR ''1''" "digit_char 2 = CHR ''2''"
  "digit_char 3 = CHR ''3''" "digit_char 4 = CHR ''4''" "digit_char 5 = CHR ''5''"
  "digit_char 6 = CHR ''6''" "digit_char 7 = CHR ''7''" "digit_char 8 = CHR ''8''"
  "digit_char 9 = CHR ''9''"
  by code_simp+

lemma digit_char_Suc0: "digit_char (Suc 0) = CHR ''1''"
  using digit_char_simps(2) by simp

lemma digit_char_inj: "a < 10 \<Longrightarrow> b < 10 \<Longrightarrow> digit_char a = digit_char b \<longleftrightarrow> a = b"
  by (simp add: digit_char_def char_of_eq_iff take_bit_eq_mod)

lemma str_nat_1: "n < 10 \<Longrightarrow> str_nat n = [digit_char n]"
  by (simp add: str_nat.simps)

lemma str_nat_2: "10 \<le> n \<Longrightarrow> n < 100 \<Longrightarrow> str_nat n = [digit_char (n div 10), digit_char (n mod 10)]"
  by (subst str_nat.simps) (simp add: str_nat_1)

lemma str_nat_3:
  "100 \<le> n \<Longrightarrow> n < 1000 \<Longrightarrow>
   str_nat n = [digit_char (n div 100), digit_char (n div 10 mod 10), digit_char (n mod 10)]"
  by (subst str_nat.simps) (simp add: str_nat_2 div_mult2_eq[symmetric])

lemma str_nat_4:
  "1000 \<le> n \<Longrightarrow> n < 10000 \<Longrightarrow>
   str_nat n = [digit_char (n div 1000), digit_char (n div 100 mod 10),
                digit_char (n div 10 mod 10), digit_char (n mod 10)]"
  by (subst str_nat.simps) (simp add: str_nat_3 div_mult2_eq[symmetric])

lemma replicate_small: "replicate 2 c = [c, c]" "replicate 3 c = [c, c, c]"
  by (simp_all add: numeral_2_eq_2 numeral_3_eq_3)

lemma zero_padded_2:
  assumes "n < 100"
  shows "zero_padded 2 n = [digit_char (n div 10), digit_char (n mod 10)]"
proof (cases "n < 10")
  case True
  then show ?thesis by (simp add: zero_padded_def str_nat_1 digit_char_simps replicate_small)
next
  case False
  with assms show ?thesis by (simp add: zero_padded_def str_nat_2)
qed

lemma zero_padded_4:
  assumes "n < 10000"
  shows "zero_padded 4 n = [digit_char (n div 1000), digit_char (n div 100 mod 10),
                            digit_char (n div 10 mod 10), digit_char (n mod 10)]"
proof -
  consider "n < 10" | "10 \<le> n" "n < 100" | "100 \<le> n" "n < 1000" | "1000 \<le> n"
    by linarith
  then show ?thesis
  proof cases
    case 1
    then show ?thesis by (simp add: zero_padded_def str_nat_1 digit_char_simps replicate_small)
  next
    case 2
    then show ?thesis by (simp add: zero_padded_def str_nat_2 digit_char_simps replicate_small)
  next
    case 3
    then show ?thesis by (simp add: zero_padded_def str_nat_3 digit_char_simps replicate_small)
  next
    case 4
    with assms show ?thesis by (simp add: zero_padded_def str_nat_4)
  qed
qed

lemma strftime_datetime_shape:
  assumes "valid_datetime t"
  shows "strftime_datetime t =
     [digit_char (year t div 1000), digit_char (year t div 100 mod 10),
      digit_char (year t div 10 mod 10), digit_char (year t mod 10), CHR ''-'',
      digit_char (month t div 10), digit_char (month t mod 10), CHR ''-'',
      digit_char (day t div 10), digit_char (day t mod 10), CHR '' '',
      digit_char (hour t div 10), digit_char (hour t mod 10), CHR '':'',
      digit_char (minute t div 10), digit_char (minute t mod 10), CHR '':'',
      digit_char (second t div 10), digit_char (second t mod 10)]"
  using assms by (simp add: strftime_datetime_def valid_datetime_def zero_padded_2 zero_padded_4)

lemma strftime_date_shape:
  assumes "valid_datetime t"
  shows "strftime_date t =
     [digit_char (year t div 1000), digit_char (year t div 100 mod 10),
      digit_char (year t div 10 mod 10), digit_char (year t mod 10), CHR ''-'',
      digit_char (month t div 10), digit_char (month t mod 10), CHR ''-'',
      digit_char (day t div 10), digit_char (day t mod 10)]"
  using assms by (simp add: strftime_date_def valid_datetime_def zero_padded_2 zero_padded_4)

lemma strftime_date_prefix: "strftime_datetime t = strftime_date t @ '' '' @ zero_padded 2 (hour t) @ '':'' @ zero_padded 2 (minute t) @ '':'' @ zero_padded 2 (second t)"
  by (simp add: strftime_datetime_def strftime_date_def)

lemma div_mod_10_eqI: "a div 10 = b div 10 \<Longrightarrow> a mod 10 = b mod 10 \<Longrightarrow> a = (b::nat)"
  by (metis div_mult_mod_eq)

lemma two_digits_inj:
  assumes "a < 100" "b < 100" "digit_char (a div 10) = digit_char (b div 10)"
    "digit_char (a mod 10) = digit_char (b mod 10)"
  shows "a = b"
proof -
  have "a div 10 = b div 10" using assms by (simp add: digit_char_inj)
  moreover have "a mod 10 = b mod 10" using assms by (simp add: digit_char_inj)
  ultimately show ?thesis by (rule div_mod_10_eqI)
qed

lemma four_digits_inj:
  assumes "a < 10000" "b < 10000"
    "digit_char (a div 1000) = digit_char (b div 1000)"
    "digit_char (a div 100 mod 10) = digit_char (b div 100 mod 10)"
    "digit_char (a div 10 mod 10) = digit_char (b div 10 mod 10)"
    "digit_char (a mod 10) = digit_char (b mod 10)"
  shows "a = b"
proof -
  have 1: "a div 100 div 10 = b div 100 div 10"
    using assms by (simp add: digit_char_inj div_mult2_eq[symmetric])
  have 2: "a div 100 mod 10 = b div 100 mod 10" using assms by (simp add: digit_char_inj)
  have 3: "a div 10 mod 10 = b div 10 mod 10" using assms by (simp add: digit_char_inj)
  have 4: "a mod 10 = b mod 10" using assms by (simp add: digit_char_inj)
  have "a div 100 = b div 100" using 1 2 by (rule div_mod_10_eqI)
  then have "a div 10 div 10 = b div 10 div 10" by (simp add: div_mult2_eq[symmetric])
  then have "a div 10 = b div 10" using 3 by (rule div_mod_10_eqI)
  then show ?thesis using 4 by (rule div_mod_10_eqI)
qed

lemma strftime_date_inj:
  assumes "valid_datetime s" "valid_datetime t" "strftime_date s = strftime_date t"
  shows "year s = year t \<and> month s = month t \<and> day s = day t"
proof -
  have ys: "year s < 10000" "year t < 10000" "month s < 100" "month t < 100" "day s < 100" "day t < 100"
    using assms(1,2) by (simp_all add: valid_datetime_def)
  from assms(3) show ?thesis
    unfolding strftime_date_shape[OF assms(1)] strftime_date_shape[OF assms(2)]
    using ys by (auto intro: two_digits_inj four_digits_inj)
qed

subsection \<open>Matching and dispatch\<close>

lemma str_contains_sublist: "str_contains k l \<longleftrightarrow> sublist k l"
  by (induction l) (simp_all add: sublist_Cons_right)

lemma str_contains_iff: "str_contains k l \<longleftrightarrow> (\<exists>ps ss. l = ps @ k @ ss)"
  by (simp add: str_contains_sublist sublist_def)

lemma process_events_first_match:
  assumes "\<forall>(k', d') \<in> set pre. \<not> str_contains k' line" "str_contains k line"
  shows "process_events cfg clk (pre @ (k, d) # post) line w = dispatch cfg clk k d line w"
  using assms by (induction pre) auto

lemma process_events_no_match:
  assumes "\<forall>(k, d) \<in> set evs. \<not> str_contains k line"
  shows "process_events cfg clk evs line w = w"
  using assms by (induction evs) auto

lemma dispatch_unfolded:
  "dispatch cfg clk k d line w =
     enqueue_discord_message cfg (strftime_datetime (clk (clock_reads w)) @ '' - '' @ line)
       (case color d of None \<Rightarrow> ''#FFFFFF'' | Some c \<Rightarrow> c)
       (w\<lparr>clock_reads := Suc (Suc (clock_reads w)),
          files := (files w)
            (output_log_prefix cfg @ strftime_date (clk (Suc (clock_reads w))) @ ''.txt'' \<mapsto>
             (case files w (output_log_prefix cfg @ strftime_date (clk (Suc (clock_reads w))) @ ''.txt'')
              of None \<Rightarrow> [] | Some old \<Rightarrow> old) @
             strftime_datetime (clk (clock_reads w)) @ '' - '' @ line),
          text_widget := text_widget w @
            [Insert (strftime_datetime (clk (clock_reads w)) @ '' - '' @ line) k, See_End]\<rparr>)"
  by (simp add: dispatch_def now_def get_output_log_filename_def append_file_def Let_def)

lemma dispatch_files:
  "files (dispatch cfg clk k d line w) =
     (files w)
       (output_log_prefix cfg @ strftime_date (clk (Suc (clock_reads w))) @ ''.txt'' \<mapsto>
        (case files w (output_log_prefix cfg @ strftime_date (clk (Suc (clock_reads w))) @ ''.txt'')
         of None \<Rightarrow> [] | Some old \<Rightarrow> old) @
        strftime_datetime (clk (clock_reads w)) @ '' - '' @ line)"
  by (simp add: dispatch_unfolded enqueue_discord_message_def)

lemma dispatch_text_widget:
  "text_widget (dispatch cfg clk k d line w) =
     text_widget w @ [Insert (strftime_datetime (clk (clock_reads w)) @ '' - '' @ line) k, See_End]"
  by (simp add: dispatch_unfolded enqueue_discord_message_def)

lemma dispatch_queue:
  "discord_message_queue (dispatch cfg clk k d line w) =
     (if enabled (discord_config cfg) = Some True
      then discord_message_queue w @
             [(strftime_datetime (clk (clock_reads w)) @ '' - '' @ line,
               case color d of None \<Rightarrow> ''#FFFFFF'' | Some c \<Rightarrow> c)]
      else discord_message_queue w)"
  by (simp add: dispatch_unfolded enqueue_discord_message_def)

lemma noon_valid: "valid_datetime noon"
  by (simp add: valid_datetime_def noon_def)

lemma strftime_noon: "strftime_datetime noon = ''2025-03-14 12:00:05''" "strftime_date noon = ''2025-03-14''"
  by (simp_all add: strftime_datetime_shape strftime_date_shape noon_valid)
     (simp_all add: noon_def digit_char_simps digit_char_Suc0)

text \<open>
  C2: a line in which no configured event key occurs leaves everything as it was:
  no file is written, nothing is inserted into the widget, nothing is queued
  (and the clock is not even read).
\<close>

theorem process_line_no_match_unchanged:
  assumes "\<forall>(k, d) \<in> set (event_configs cfg). \<not> str_contains k line"
  shows "process_line cfg clk line w = w"
  using assms by (simp add: process_line_def process_events_no_match)

theorem process_line_no_match_unchanged_witness:
  "map fst (event_configs demo_config) = [''OnPlayerJoined'', ''OnPlayer''] \<and>
   \<not> str_contains ''OnPlayerJoined'' plain_line \<and> \<not> str_contains ''OnPlayer'' plain_line \<and>
   process_line demo_config (clock_at noon) plain_line empty_world = empty_world \<and>
   files (process_line demo_config (clock_at noon) plain_line empty_world) = Map.empty \<and>
   text_widget (process_line demo_config (clock_at noon) plain_line empty_world) = [] \<and>
   discord_message_queue (process_line demo_config (clock_at noon) plain_line empty_world) = []"
proof -
  have h: "\<forall>(k, d) \<in> set (event_configs demo_config). \<not> str_contains k plain_line"
    by (simp add: demo_config_def plain_line_def)
  from process_line_no_match_unchanged[OF h, of "clock_at noon" empty_world] h
  show ?thesis by (simp add: empty_world_def demo_config_def)
qed

text \<open>
  C1: the matcher goes through the configured event keys in their order and fires on
  the first key that occurs in the line as a literal substring (characters are
  compared as they are, so case matters). Whatever keys come later, and whether
  or not they occur in the line too, exactly one event fires: the widget receives
  one insertion, tagged with the first matching key. When no key occurs in the line,
  nothing fires.
\<close>

theorem process_line_first_key_wins:
  "(str_contains k line \<longleftrightarrow> (\<exists>ps ss. line = ps @ k @ ss)) \<and>
   (event_configs cfg = pre @ (k, d) # post \<and>
    (\<forall>(k', d') \<in> set pre. \<not> str_contains k' line) \<and> str_contains k line \<longrightarrow>
      process_line cfg clk line w = dispatch cfg clk k d line w \<and>
      text_widget (process_line cfg clk line w) =
        text_widget w @
        [Insert (strftime_datetime (clk (clock_reads w)) @ '' - '' @ line) k, See_End]) \<and>
   ((\<forall>(k', d') \<in> set (event_configs cfg). \<not> str_contains k' line) \<longrightarrow>
      process_line cfg clk line w = w)"
proof (intro conjI impI)
  show "str_contains k line \<longleftrightarrow> (\<exists>ps ss. line = ps @ k @ ss)"
    by (rule str_contains_iff)
next
  assume m: "event_configs cfg = pre @ (k, d) # post \<and>
    (\<forall>(k', d') \<in> set pre. \<not> str_contains k' line) \<and> str_contains k line"
  then show fire: "process_line cfg clk line w = dispatch cfg clk k d line w"
    by (simp add: process_line_def process_events_first_match)
  show "text_widget (process_line cfg clk line w) =
        text_widget w @
        [Insert (strftime_datetime (clk (clock_reads w)) @ '' - '' @ line) k, See_End]"
    by (simp only: fire dispatch_text_widget)
next
  assume "\<forall>(k', d') \<in> set (event_configs cfg). \<not> str_contains k' line"
  then show "process_line cfg clk line w = w"
    by (simp add: process_line_def process_events_no_match)
qed

theorem process_line_first_key_wins_witness:
  "str_contains ''OnPlayerJoined'' join_line \<and> str_contains ''OnPlayer'' join_line \<and>
   text_widget (process_line demo_config (clock_at noon) join_line empty_world) =
     [Insert (''2025-03-14 12:00:05 - '' @ join_line) ''OnPlayerJoined'', See_End] \<and>
   \<not> str_contains ''OnPlayerJoined'' plain_line \<and> \<not> str_contains ''OnPlayer'' plain_line \<and>
   process_line demo_config (clock_at noon) plain_line empty_world = empty_world"
proof -
  have j: "str_contains ''OnPlayerJoined'' join_line" "str_contains ''OnPlayer'' join_line"
    by (simp_all add: join_line_def)
  have p: "\<not> str_contains ''OnPlayerJoined'' plain_line" "\<not> str_contains ''OnPlayer'' plain_line"
    by (simp_all add: plain_line_def)
  have e: "event_configs demo_config =
      [] @ (''OnPlayerJoined'', \<lparr>color = Some ''#00FF00''\<rparr>) # [(''OnPlayer'', \<lparr>color = None\<rparr>)]"
    by (simp add: demo_config_def)
  have a: "\<forall>(k', d') \<in> set (event_configs demo_config). \<not> str_contains k' plain_line"
    using p by (simp add: demo_config_def)
  from process_line_first_key_wins[where cfg = demo_config and pre = "[]"
      and k = "''OnPlayerJoined''" and d = "\<lparr>color = Some ''#00FF00''\<rparr>"
      and post = "[(''OnPlayer'', \<lparr>color = None\<rparr>)]" and line = join_line
      and clk = "clock_at noon" and w = empty_world] e j
  have 1: "text_widget (process_line demo_config (clock_at noon) join_line empty_world) =
     [Insert (''2025-03-14 12:00:05 - '' @ join_line) ''OnPlayerJoined'', See_End]"
    by (simp add: empty_world_def clock_at_def strftime_noon dispatch_text_widget)
  from process_line_first_key_wins[where cfg = demo_config and line = plain_line
      and clk = "clock_at noon" and w = empty_world] a
  have 2: "process_line demo_config (clock_at noon) plain_line empty_world = empty_world"
    by simp
  from j p 1 2 show ?thesis by simp
qed

text \<open>
  C3: for a matched line, the text appended to the day's output file is the
  timestamp of the first clock reading in the form YYYY-MM-DD HH:MM:SS (19
  characters, the digits of the six fields), then \<open>" - "\<close>, then the line as it
  is, line terminator included. The file keeps what it held, no other file changes,
  and reading back what was appended and dropping the 22 characters of the prefix
  gives the line again.
\<close>

theorem process_line_record_round_trip:
  fixes cfg :: config and clk :: clock and line :: string and w :: world
  defines "t \<equiv> clk (clock_reads w)"
  defines "fname \<equiv> output_log_prefix cfg @ strftime_date (clk (Suc (clock_reads w))) @ ''.txt''"
  defines "old \<equiv> (case files w fname of None \<Rightarrow> [] | Some x \<Rightarrow> x)"
  defines "w' \<equiv> process_line cfg clk line w"
  assumes "event_configs cfg = pre @ (k, d) # post"
    and "\<forall>(k', d') \<in> set pre. \<not> str_contains k' line"
    and "str_contains k line"
    and "valid_datetime t"
  shows "files w' = (files w)(fname \<mapsto> old @ strftime_datetime t @ '' - '' @ line) \<and>
     strftime_datetime t =
       [digit_char (year t div 1000), digit_char (year t div 100 mod 10),
        digit_char (year t div 10 mod 10), digit_char (year t mod 10), CHR ''-'',
        digit_char (month t div 10), digit_char (month t mod 10), CHR ''-'',
        digit_char (day t div 10), digit_char (day t mod 10), CHR '' '',
        digit_char (hour t div 10), digit_char (hour t mod 10), CHR '':'',
        digit_char (minute t div 10), digit_char (minute t mod 10), CHR '':'',
        digit_char (second t div 10), digit_char (second t mod 10)] \<and>
     take 22 (drop (length old) (the (files w' fname))) = strftime_datetime t @ '' - '' \<and>
     drop 22 (drop (length old) (the (files w' fname))) = line"
proof -
  have fire: "w' = dispatch cfg clk k d line w"
    using assms(5-7) by (simp add: w'_def process_line_def process_events_first_match)
  have f: "files w' = (files w)(fname \<mapsto> old @ strftime_datetime t @ '' - '' @ line)"
    by (simp add: fire dispatch_files fname_def old_def t_def)
  have shape: "strftime_datetime t =
       [digit_char (year t div 1000), digit_char (year t div 100 mod 10),
        digit_char (year t div 10 mod 10), digit_char (year t mod 10), CHR ''-'',
        digit_char (month t div 10), digit_char (month t mod 10), CHR ''-'',
        digit_char (day t div 10), digit_char (day t mod 10), CHR '' '',
        digit_char (hour t div 10), digit_char (hour t mod 10), CHR '':'',
        digit_char (minute t div 10), digit_char (minute t mod 10), CHR '':'',
        digit_char (second t div 10), digit_char (second t mod 10)]"
    using assms(8) by (rule strftime_datetime_shape)
  have len: "length (strftime_datetime t) = 19"
    by (subst shape) simp
  have reread: "drop (length old) (the (files w' fname)) = strftime_datetime t @ '' - '' @ line"
    by (simp add: f)
  have "take 22 (drop (length old) (the (files w' fname))) = strftime_datetime t @ '' - ''"
    by (simp add: reread len)
  moreover have "drop 22 (drop (length old) (the (files w' fname))) = line"
    by (simp add: reread len)
  ultimately show ?thesis using f shape by blast
qed

theorem process_line_record_round_trip_witness:
  "str_contains ''OnPlayerJoined'' join_line \<and> valid_datetime noon \<and>
   files (process_line demo_config (clock_at noon) join_line empty_world) =
     [''parsed_log_2025-03-14.txt'' \<mapsto> ''2025-03-14 12:00:05 - '' @ join_line] \<and>
   drop 22 (the (files (process_line demo_config (clock_at noon) join_line empty_world)
                   ''parsed_log_2025-03-14.txt'')) = join_line"
proof -
  have j: "str_contains ''OnPlayerJoined'' join_line"
    by (simp add: join_line_def)
  have e: "event_configs demo_config =
      [] @ (''OnPlayerJoined'', \<lparr>color = Some ''#00FF00''\<rparr>) # [(''OnPlayer'', \<lparr>color = None\<rparr>)]"
    by (simp add: demo_config_def)
  have a: "\<forall>(k', d') \<in> set []. \<not> str_contains k' join_line"
    by simp
  have v: "valid_datetime (clock_at noon (clock_reads empty_world))"
    by (simp add: clock_at_def noon_valid)
  have p: "output_log_prefix demo_config = ''parsed_log_''"
    by (simp add: demo_config_def)
  from process_line_record_round_trip[where clk = "clock_at noon" and w = empty_world, OF e a j v]
  show ?thesis
    using j noon_valid
    by (simp add: clock_at_def strftime_noon p empty_world_def)
qed

text \<open>
  C8: for a matched line, the pair of the record text and the colour of the event
  is put at the end of the queue exactly when \<open>discord.enabled\<close> is true in the
  configuration; when it is false or absent the queue stays as it was. An event
  without a colour is queued with \<open>#FFFFFF\<close>.
\<close>

theorem process_line_enqueue_iff_enabled:
  assumes "event_configs cfg = pre @ (k, d) # post"
    and "\<forall>(k', d') \<in> set pre. \<not> str_contains k' line"
    and "str_contains k line"
  shows "discord_message_queue (process_line cfg clk line w) =
     (if enabled (discord_config cfg) = Some True
      then discord_message_queue w @
             [(strftime_datetime (clk (clock_reads w)) @ '' - '' @ line,
               case color d of None \<Rightarrow> ''#FFFFFF'' | Some c \<Rightarrow> c)]
      else discord_message_queue w)"
proof -
  have "process_line cfg clk line w = dispatch cfg clk k d line w"
    using assms by (simp add: process_line_def process_events_first_match)
  then show ?thesis by (simp only: dispatch_queue)
qed

theorem process_line_enqueue_iff_enabled_witness:
  "discord_message_queue (process_line demo_config (clock_at noon) join_line empty_world) =
     [(''2025-03-14 12:00:05 - '' @ join_line, ''#00FF00'')] \<and>
   discord_message_queue (process_line demo_config (clock_at noon) left_line empty_world) =
     [(''2025-03-14 12:00:05 - '' @ left_line, ''#FFFFFF'')] \<and>
   enabled (discord_config quiet_config) = None \<and>
   discord_message_queue (process_line quiet_config (clock_at noon) join_line empty_world) = []"
proof -
  have j: "str_contains ''OnPlayerJoined'' join_line"
    by (simp add: join_line_def)
  have l: "\<forall>(k', d') \<in> set [(''OnPlayerJoined'', \<lparr>color = Some ''#00FF00''\<rparr>)].
      \<not> str_contains k' left_line" "str_contains ''OnPlayer'' left_line"
    by (simp_all add: left_line_def)
  have e1: "event_configs demo_config =
      [] @ (''OnPlayerJoined'', \<lparr>color = Some ''#00FF00''\<rparr>) # [(''OnPlayer'', \<lparr>color = None\<rparr>)]"
    by (simp add: demo_config_def)
  have e2: "event_configs demo_config =
      [(''OnPlayerJoined'', \<lparr>color = Some ''#00FF00''\<rparr>)] @ (''OnPlayer'', \<lparr>color = None\<rparr>) # []"
    by (simp add: demo_config_def)
  have e3: "event_configs quiet_config =
      [] @ (''OnPlayerJoined'', \<lparr>color = Some ''#00FF00''\<rparr>) # [(''OnPlayer'', \<lparr>color = None\<rparr>)]"
    by (simp add: quiet_config_def demo_config_def)
  have a: "\<forall>(k', d') \<in> set []. \<not> str_contains k' join_line"
    by simp
  have en: "enabled (discord_config demo_config) = Some True"
    "enabled (discord_config quiet_config) = None"
    by (simp_all add: quiet_config_def demo_config_def)
  from process_line_enqueue_iff_enabled[OF e1 a j, of "clock_at noon" empty_world]
    process_line_enqueue_iff_enabled[OF e2 l, of "clock_at noon" empty_world]
    process_line_enqueue_iff_enabled[OF e3 a j, of "clock_at noon" empty_world]
  show ?thesis
    by (simp add: en clock_at_def strftime_noon empty_world_def)
qed

subsection \<open>The dated output file\<close>

lemma strftime_date_cong: "date_of s = date_of t \<Longrightarrow> strftime_date s = strftime_date t"
  by (simp add: date_of_def strftime_date_def)

lemma strftime_date_eq_iff:
  assumes "valid_datetime s" "valid_datetime t"
  shows "strftime_date s = strftime_date t \<longleftrightarrow> date_of s = date_of t"
proof
  assume "strftime_date s = strftime_date t"
  with assms have "year s = year t \<and> month s = month t \<and> day s = day t"
    by (rule strftime_date_inj)
  then show "date_of s = date_of t" by (simp add: date_of_def)
next
  assume "date_of s = date_of t"
  then show "strftime_date s = strftime_date t" by (rule strftime_date_cong)
qed

lemma length_strftime_date: "valid_datetime t \<Longrightarrow> length (strftime_date t) = 10"
  by (simp add: strftime_date_shape)

lemma take_10_record:
  assumes "valid_datetime t"
  shows "take 10 (strftime_datetime t @ rest) = strftime_date t"
  using length_strftime_date[OF assms] by (simp add: strftime_date_prefix)




lemma midnight_valid: "valid_datetime (midnight_clock k)"
  by (simp add: valid_datetime_def midnight_clock_def)

lemma strftime_midnight:
  "strftime_datetime (midnight_clock 0) = ''2024-12-31 23:59:59''"
  "strftime_date (midnight_clock 0) = ''2024-12-31''"
  "strftime_date (midnight_clock (Suc 0)) = ''2025-01-01''"
  by (simp_all add: strftime_datetime_shape strftime_date_shape midnight_valid)
     (simp_all add: midnight_clock_def digit_char_simps digit_char_Suc0)



text \<open>
  C6, as the claim states it, fails: \<open>process_line\<close> reads the clock once for the
  timestamp and \<open>get_output_log_filename\<close> reads it again for the file name. When
  midnight falls between the two readings, a record stamped 2024-12-31 is
  appended to the file of 2025-01-01.
\<close>

theorem file_date_differs_from_timestamp_date:
  "files (process_line demo_config midnight_clock join_line empty_world)
     ''parsed_log_2025-01-01.txt'' = Some (''2024-12-31 23:59:59 - '' @ join_line) \<and>
   files (process_line demo_config midnight_clock join_line empty_world)
     ''parsed_log_2024-12-31.txt'' = None \<and>
   take 10 (''2024-12-31 23:59:59 - '' @ join_line) \<noteq> ''2025-01-01''"
proof -
  have j: "str_contains ''OnPlayerJoined'' join_line"
    by (simp add: join_line_def)
  have "process_line demo_config midnight_clock join_line empty_world =
      dispatch demo_config midnight_clock ''OnPlayerJoined'' \<lparr>color = Some ''#00FF00''\<rparr>
        join_line empty_world"
    using j by (simp add: process_line_def demo_config_def)
  then show ?thesis
    by (simp add: dispatch_files empty_world_def strftime_midnight demo_config_def)
qed

text \<open>
  C6, amended: the file a record is appended to is named by the date of the
  clock reading taken when the file name is computed, which is the reading after
  the one that stamps the record. The date in the file name equals the date at the
  start of the record text exactly when the two readings fall on the same calendar
  date.
\<close>

theorem output_file_date_is_second_reading:
  fixes cfg :: config and clk :: clock and line :: string and w :: world
  defines "t \<equiv> clk (clock_reads w)" and "u \<equiv> clk (Suc (clock_reads w))"
  defines "fname \<equiv> output_log_prefix cfg @ strftime_date u @ ''.txt''"
  defines "record_text \<equiv> strftime_datetime t @ '' - '' @ line"
  assumes "event_configs cfg = pre @ (k, d) # post"
    and "\<forall>(k', d') \<in> set pre. \<not> str_contains k' line"
    and "str_contains k line"
    and "valid_datetime t" and "valid_datetime u"
  shows "files (process_line cfg clk line w) =
       (files w)(fname \<mapsto> (case files w fname of None \<Rightarrow> [] | Some old \<Rightarrow> old) @ record_text) \<and>
     take 10 record_text = strftime_date t \<and>
     (strftime_date u = take 10 record_text \<longleftrightarrow> date_of u = date_of t)"
proof -
  have "process_line cfg clk line w = dispatch cfg clk k d line w"
    using assms(5-7) by (simp add: process_line_def process_events_first_match)
  then have a: "files (process_line cfg clk line w) =
       (files w)(fname \<mapsto> (case files w fname of None \<Rightarrow> [] | Some old \<Rightarrow> old) @ record_text)"
    by (simp add: dispatch_files fname_def record_text_def t_def u_def)
  have b: "take 10 record_text = strftime_date t"
    unfolding record_text_def using assms(8) by (rule take_10_record)
  have c: "strftime_date u = take 10 record_text \<longleftrightarrow> date_of u = date_of t"
    unfolding b using assms(9,8) by (rule strftime_date_eq_iff)
  from a b c show ?thesis by blast
qed

theorem output_file_date_is_second_reading_witness:
  "date_of (clock_at noon 1) = date_of (clock_at noon 0) \<and>
   files (process_line demo_config (clock_at noon) join_line empty_world) =
     [''parsed_log_2025-03-14.txt'' \<mapsto> ''2025-03-14 12:00:05 - '' @ join_line] \<and>
   take 10 (''2025-03-14 12:00:05 - '' @ join_line) = ''2025-03-14''"
proof -
  have j: "str_contains ''OnPlayerJoined'' join_line"
    by (simp add: join_line_def)
  have e: "event_configs demo_config =
      [] @ (''OnPlayerJoined'', \<lparr>color = Some ''#00FF00''\<rparr>) # [(''OnPlayer'', \<lparr>color = None\<rparr>)]"
    by (simp add: demo_config_def)
  have a: "\<forall>(k', d') \<in> set []. \<not> str_contains k' join_line"
    by simp
  have v: "valid_datetime (clock_at noon (clock_reads empty_world))"
    "valid_datetime (clock_at noon (Suc (clock_reads empty_world)))"
    by (simp_all add: clock_at_def noon_valid)
  have p: "output_log_prefix demo_config = ''parsed_log_''"
    by (simp add: demo_config_def)
  from output_file_date_is_second_reading[where clk = "clock_at noon" and w = empty_world,
      OF e a j v]
  show ?thesis
    by (simp add: clock_at_def strftime_noon p empty_world_def)
qed

subsection \<open>The log source resolver\<close>

lemma max_key_split:
  "\<exists>pre post. b # xs = pre @ max_key key b xs # post \<and>
     (\<forall>x \<in> set pre. key x < key (max_key key b xs)) \<and>
     (\<forall>x \<in> set post. key x \<le> key (max_key key b xs))"
proof (induction xs arbitrary: b)
  case Nil
  have "[b] = [] @ max_key key b [] # []" by simp
  then show ?case by (metis empty_iff list.set(1))
next
  case (Cons x xs)
  show ?case
  proof (cases "key b < key x")
    case True
    from Cons.IH[of x] obtain pre post where
      s: "x # xs = pre @ max_key key x xs # post"
      and l: "\<forall>y \<in> set pre. key y < key (max_key key x xs)"
      and r: "\<forall>y \<in> set post. key y \<le> key (max_key key x xs)"
      by blast
    have "x \<in> set (pre @ max_key key x xs # post)"
      using s by (metis list.set_intros(1))
    then have "key x \<le> key (max_key key x xs)"
      using l r by auto
    with True have "key b < key (max_key key x xs)"
      by simp
    with l have l': "\<forall>y \<in> set (b # pre). key y < key (max_key key x xs)"
      by simp
    have "b # x # xs = (b # pre) @ max_key key x xs # post"
      using s by simp
    with l' r True show ?thesis
      by (metis max_key.simps(2))
  next
    case False
    from Cons.IH[of b] obtain pre post where
      s: "b # xs = pre @ max_key key b xs # post"
      and l: "\<forall>y \<in> set pre. key y < key (max_key key b xs)"
      and r: "\<forall>y \<in> set post. key y \<le> key (max_key key b xs)"
      by blast
    have m: "max_key key b (x # xs) = max_key key b xs"
      using False by simp
    show ?thesis
    proof (cases pre)
      case Nil
      with s have e: "max_key key b xs = b" "xs = post"
        by auto
      have "b # x # xs = [] @ b # (x # post)"
        using e by simp
      moreover have "\<forall>y \<in> set (x # post). key y \<le> key b"
        using r e False by auto
      ultimately show ?thesis
        unfolding m e(1) by (metis empty_iff list.set(1))
    next
      case (Cons p pre')
      with s have e: "p = b" "xs = pre' @ max_key key b xs # post"
        by auto
      have "key b < key (max_key key b xs)"
        using l Cons e by simp
      with False have "key x < key (max_key key b xs)"
        by simp
      with l Cons e have l': "\<forall>y \<in> set (b # x # pre'). key y < key (max_key key b xs)"
        by simp
      have "b # x # xs = (b # x # pre') @ max_key key b xs # post"
        using e(2) by simp
      with l' r show ?thesis
        unfolding m by blast
    qed
  qed
qed


text \<open>
  C4, as the claim states it, fails on the tie-break: Python's \<open>max\<close> keeps
  the first of several maximal items. Two files with the same modification time:
  the resolver returns the first in enumeration order, not the last.
\<close>

theorem tie_goes_to_first_file:
  "glob tie_os (path_join tie_os (expandvars tie_os (log_dir demo_config)) (log_pattern demo_config)) =
     [''output_log_01.txt'', ''output_log_02.txt''] \<and>
   getmtime tie_os ''output_log_01.txt'' = getmtime tie_os ''output_log_02.txt'' \<and>
   get_latest_log_file tie_os demo_config = Some ''output_log_01.txt'' \<and>
   get_latest_log_file tie_os demo_config \<noteq> Some ''output_log_02.txt''"
  by (simp add: get_latest_log_file_def tie_os_def)

text \<open>
  C4, amended: the resolver expands the environment variables of the directory,
  joins it with the pattern and globs. With no match it returns \<open>None\<close> and does
  not raise. With at least one match it returns a match whose modification time is
  the greatest, and among several such matches the first in enumeration order:
  every match before the returned one is strictly older, every match after it is
  older or of the same age.
\<close>

theorem get_latest_log_file_first_newest:
  fixes os :: "('t::linorder) os_env" and cfg :: config
  defines "matching_files \<equiv>
    glob os (path_join os (expandvars os (log_dir cfg)) (log_pattern cfg))"
  shows "(matching_files = [] \<longrightarrow> get_latest_log_file os cfg = None) \<and>
     (matching_files \<noteq> [] \<longrightarrow>
       (\<exists>pre f post. get_latest_log_file os cfg = Some f \<and> matching_files = pre @ f # post \<and>
          (\<forall>x \<in> set pre. getmtime os x < getmtime os f) \<and>
          (\<forall>x \<in> set post. getmtime os x \<le> getmtime os f)))"
proof (intro conjI impI)
  assume "matching_files = []"
  then show "get_latest_log_file os cfg = None"
    by (simp add: get_latest_log_file_def matching_files_def)
next
  assume "matching_files \<noteq> []"
  then obtain b xs where m: "matching_files = b # xs"
    by (cases matching_files) auto
  then have r: "get_latest_log_file os cfg = Some (max_key (getmtime os) b xs)"
    by (simp add: get_latest_log_file_def matching_files_def)
  from max_key_split[of b xs "getmtime os"] obtain pre post where
    "b # xs = pre @ max_key (getmtime os) b xs # post"
    "\<forall>x \<in> set pre. getmtime os x < getmtime os (max_key (getmtime os) b xs)"
    "\<forall>x \<in> set post. getmtime os x \<le> getmtime os (max_key (getmtime os) b xs)"
    by blast
  with m r show "\<exists>pre f post. get_latest_log_file os cfg = Some f \<and>
      matching_files = pre @ f # post \<and>
      (\<forall>x \<in> set pre. getmtime os x < getmtime os f) \<and>
      (\<forall>x \<in> set post. getmtime os x \<le> getmtime os f)"
    by metis
qed

theorem get_latest_log_file_first_newest_witness:
  "glob bare_os (path_join bare_os (expandvars bare_os (log_dir demo_config)) (log_pattern demo_config)) = [] \<and>
   get_latest_log_file bare_os demo_config = None \<and>
   glob newer_os (path_join newer_os (expandvars newer_os (log_dir demo_config)) (log_pattern demo_config)) =
     [''output_log_01.txt'', ''output_log_02.txt''] \<and>
   getmtime newer_os ''output_log_01.txt'' < getmtime newer_os ''output_log_02.txt'' \<and>
   get_latest_log_file newer_os demo_config = Some ''output_log_02.txt'' \<and>
   (\<exists>pre post. [''output_log_01.txt'', ''output_log_02.txt''] = pre @ ''output_log_02.txt'' # post \<and>
      (\<forall>x \<in> set pre. getmtime newer_os x < getmtime newer_os ''output_log_02.txt'') \<and>
      (\<forall>x \<in> set post. getmtime newer_os x \<le> getmtime newer_os ''output_log_02.txt''))"
proof -
  have g0: "glob bare_os (path_join bare_os (expandvars bare_os (log_dir demo_config))
      (log_pattern demo_config)) = []"
    by (simp add: bare_os_def tie_os_def)
  have g1: "glob newer_os (path_join newer_os (expandvars newer_os (log_dir demo_config))
      (log_pattern demo_config)) = [''output_log_01.txt'', ''output_log_02.txt'']"
    by (simp add: newer_os_def tie_os_def)
  have lt: "getmtime newer_os ''output_log_01.txt'' < getmtime newer_os ''output_log_02.txt''"
    by (simp add: newer_os_def tie_os_def)
  have r: "get_latest_log_file newer_os demo_config = Some ''output_log_02.txt''"
    by (simp add: get_latest_log_file_def newer_os_def tie_os_def)
  have n: "get_latest_log_file bare_os demo_config = None"
    using get_latest_log_file_first_newest[of bare_os demo_config] g0 by simp
  have "\<exists>pre f post. get_latest_log_file newer_os demo_config = Some f \<and>
      [''output_log_01.txt'', ''output_log_02.txt''] = pre @ f # post \<and>
      (\<forall>x \<in> set pre. getmtime newer_os x < getmtime newer_os f) \<and>
      (\<forall>x \<in> set post. getmtime newer_os x \<le> getmtime newer_os f)"
    using get_latest_log_file_first_newest[of newer_os demo_config] g1 by simp
  then have s: "\<exists>pre post. [''output_log_01.txt'', ''output_log_02.txt''] =
        pre @ ''output_log_02.txt'' # post \<and>
      (\<forall>x \<in> set pre. getmtime newer_os x < getmtime newer_os ''output_log_02.txt'') \<and>
      (\<forall>x \<in> set post. getmtime newer_os x \<le> getmtime newer_os ''output_log_02.txt'')"
    unfolding r by blast
  from g0 n g1 lt r s show ?thesis by blast
qed

subsection \<open>The forwarder\<close>

lemma forwarder_iteration_empty:
  "discord_message_queue w = [] \<Longrightarrow> forwarder_iteration nt chan w = w\<lparr>sleeps := Suc (sleeps w)\<rparr>"
  by (simp add: forwarder_iteration_def)

lemma forwarder_iteration_bad_color:
  assumes "discord_message_queue w = (m, h) # rest" "py_int16 (lstrip (CHR ''#'') h) = None"
  shows "forwarder_iteration nt chan w =
     w\<lparr>discord_message_queue := rest,
       console := console w @ [Printed_Error ''Error sending message to Discord:'' ValueError]\<rparr>"
  using assms by (simp add: forwarder_iteration_def forward_item_def print_line_def)

lemma forwarder_iteration_send:
  assumes "discord_message_queue w = (m, h) # rest" "py_int16 (lstrip (CHR ''#'') h) = Some v"
  shows "forwarder_iteration nt chan w =
     (if send_raises nt (length (send_calls w))
      then w\<lparr>discord_message_queue := rest,
             send_calls := send_calls w @ [(chan, m, v)],
             console := console w @ [Printed_Error ''Error sending message to Discord:'' SendFailure]\<rparr>
      else w\<lparr>discord_message_queue := rest,
             send_calls := send_calls w @ [(chan, m, v)],
             delivered := delivered w @ [(chan, m, v)]\<rparr>)"
  using assms by (simp add: forwarder_iteration_def forward_item_def print_line_def Let_def)

lemma forwarder_loop_empty:
  "discord_message_queue w = [] \<Longrightarrow> forwarder_loop nt chan n w = w\<lparr>sleeps := sleeps w + n\<rparr>"
proof (induction n arbitrary: w)
  case 0
  show ?case by simp
next
  case (Suc n)
  have "discord_message_queue (w\<lparr>sleeps := Suc (sleeps w)\<rparr>) = []"
    using Suc.prems by simp
  from Suc.IH[OF this] show ?case
    using Suc.prems by (simp add: forwarder_iteration_empty)
qed

lemma forwarder_iteration_queue:
  "discord_message_queue (forwarder_iteration nt chan w) = tl (discord_message_queue w)"
  by (cases "discord_message_queue w")
     (auto simp: forwarder_iteration_def forward_item_def print_line_def Let_def split: option.splits)

lemma forwarder_loop_queue:
  "discord_message_queue (forwarder_loop nt chan n w) = drop n (discord_message_queue w)"
proof (induction n arbitrary: w)
  case 0
  show ?case by simp
next
  case (Suc n)
  show ?case by (simp add: Suc.IH forwarder_iteration_queue drop_Suc)
qed

lemma forwarder_iteration_send_calls:
  "send_calls (forwarder_iteration nt chan w) =
     send_calls w @
     (case discord_message_queue w of
        [] \<Rightarrow> []
      | (m, h) # rest \<Rightarrow>
          (case py_int16 (lstrip (CHR ''#'') h) of None \<Rightarrow> [] | Some v \<Rightarrow> [(chan, m, v)]))"
  by (cases "discord_message_queue w")
     (auto simp: forwarder_iteration_def forward_item_def print_line_def Let_def split: option.splits)

lemma forwarder_loop_send_calls:
  "send_calls (forwarder_loop nt chan n w) =
     send_calls w @
     concat (map (\<lambda>(m, h). case py_int16 (lstrip (CHR ''#'') h) of
                               None \<Rightarrow> [] | Some v \<Rightarrow> [(chan, m, v)])
              (take n (discord_message_queue w)))"
proof (induction n arbitrary: w)
  case 0
  show ?case by simp
next
  case (Suc n)
  show ?case
  proof (cases "discord_message_queue w")
    case Nil
    then show ?thesis
      by (simp add: Suc.IH forwarder_iteration_queue forwarder_iteration_send_calls)
  next
    case (Cons a rest)
    then show ?thesis
      by (cases a) (simp add: Suc.IH forwarder_iteration_queue forwarder_iteration_send_calls)
  qed
qed

lemma demo_colors:
  "py_int16 (lstrip (CHR ''#'') ''#00FF00'') = Some 65280"
  "py_int16 (lstrip (CHR ''#'') ''#0000FF'') = Some 255"
  "py_int16 (lstrip (CHR ''#'') ''FF0000'') = Some 16711680"
  "py_int16 (lstrip (CHR ''#'') ''#FF0000'') = Some 16711680"
  "py_int16 (lstrip (CHR ''#'') ''green'') = None"
  by (simp_all add: lstrip_def py_int16_def skip_hex_prefix_def is_digit_of_def digit_value_def
      is_space_def)

text \<open>
  C7: with A, B and C in the queue in this order (each with a colour that
  converts), the forwarder calls \<open>channel.send\<close> for A, then B, then C, once each,
  whatever the outcome of any of the calls. A call that raises has its exception
  caught and printed, and its item is not delivered and not put back: the queue ends
  empty and no further call is made for the item. So when the call for B raises, B
  is dropped and C is still sent after A and B. Once the queue is empty the loop
  only sleeps.
\<close>

theorem forwarder_keeps_order_and_drops_failures:
  fixes nt :: notifier and chan :: channel and w :: world
  defines "w' \<equiv> \<lambda>n. forwarder_loop nt chan n w"
  defines "failure \<equiv> Printed_Error ''Error sending message to Discord:'' SendFailure"
  defines "a_raises \<equiv> send_raises nt (length (send_calls w))"
    and "b_raises \<equiv> send_raises nt (Suc (length (send_calls w)))"
    and "c_raises \<equiv> send_raises nt (Suc (Suc (length (send_calls w))))"
  assumes "discord_message_queue w = [(ma, ha), (mb, hb), (mc, hc)]"
    and "py_int16 (lstrip (CHR ''#'') ha) = Some va"
    and "py_int16 (lstrip (CHR ''#'') hb) = Some vb"
    and "py_int16 (lstrip (CHR ''#'') hc) = Some vc"
    and "3 \<le> n"
  shows "send_calls (w' n) = send_calls w @ [(chan, ma, va), (chan, mb, vb), (chan, mc, vc)] \<and>
     discord_message_queue (w' n) = [] \<and>
     delivered (w' n) = delivered w @
       (if a_raises then [] else [(chan, ma, va)]) @
       (if b_raises then [] else [(chan, mb, vb)]) @
       (if c_raises then [] else [(chan, mc, vc)]) \<and>
     console (w' n) = console w @
       (if a_raises then [failure] else []) @
       (if b_raises then [failure] else []) @
       (if c_raises then [failure] else [])"
proof -
  obtain k where n: "n = Suc (Suc (Suc k))"
    using assms(10) by (metis Suc_le_D numeral_3_eq_3 add_Suc_right add_Suc le_Suc_ex)
  define w1 where "w1 = forwarder_iteration nt chan w"
  define w2 where "w2 = forwarder_iteration nt chan w1"
  define w3 where "w3 = forwarder_iteration nt chan w2"
  have 1: "discord_message_queue w1 = [(mb, hb), (mc, hc)]"
    "send_calls w1 = send_calls w @ [(chan, ma, va)]"
    "delivered w1 = delivered w @ (if a_raises then [] else [(chan, ma, va)])"
    "console w1 = console w @ (if a_raises then [failure] else [])"
    unfolding w1_def failure_def a_raises_def
    by (simp_all add: forwarder_iteration_send[OF assms(6,7)])
  have 2: "discord_message_queue w2 = [(mc, hc)]"
    "send_calls w2 = send_calls w @ [(chan, ma, va), (chan, mb, vb)]"
    "delivered w2 = delivered w1 @ (if b_raises then [] else [(chan, mb, vb)])"
    "console w2 = console w1 @ (if b_raises then [failure] else [])"
    unfolding w2_def failure_def b_raises_def
    by (simp_all add: forwarder_iteration_send[OF 1(1) assms(8)] 1(2))
  have 3: "discord_message_queue w3 = []"
    "send_calls w3 = send_calls w @ [(chan, ma, va), (chan, mb, vb), (chan, mc, vc)]"
    "delivered w3 = delivered w2 @ (if c_raises then [] else [(chan, mc, vc)])"
    "console w3 = console w2 @ (if c_raises then [failure] else [])"
    unfolding w3_def failure_def c_raises_def
    by (simp_all add: forwarder_iteration_send[OF 2(1) assms(9)] 2(2))
  have "w' n = forwarder_loop nt chan k w3"
    by (simp add: w'_def n w1_def w2_def w3_def)
  then have "w' n = w3\<lparr>sleeps := sleeps w3 + k\<rparr>"
    by (simp add: forwarder_loop_empty[OF 3(1)])
  then show ?thesis
    by (simp add: 1 2 3)
qed

theorem forwarder_keeps_order_and_drops_failures_witness:
  "send_raises demo_notifier 1 \<and> \<not> send_raises demo_notifier 0 \<and> \<not> send_raises demo_notifier 2 \<and>
   send_calls (forwarder_loop demo_notifier 7 5 (empty_world\<lparr>discord_message_queue := three_items\<rparr>)) =
     [(7, ''A'', 65280), (7, ''B'', 255), (7, ''C'', 16711680)] \<and>
   delivered (forwarder_loop demo_notifier 7 5 (empty_world\<lparr>discord_message_queue := three_items\<rparr>)) =
     [(7, ''A'', 65280), (7, ''C'', 16711680)] \<and>
   console (forwarder_loop demo_notifier 7 5 (empty_world\<lparr>discord_message_queue := three_items\<rparr>)) =
     [Printed_Error ''Error sending message to Discord:'' SendFailure] \<and>
   discord_message_queue
     (forwarder_loop demo_notifier 7 5 (empty_world\<lparr>discord_message_queue := three_items\<rparr>)) = []"
proof -
  have q: "discord_message_queue (empty_world\<lparr>discord_message_queue := three_items\<rparr>) =
      [(''A'', ''#00FF00''), (''B'', ''#0000FF''), (''C'', ''FF0000'')]"
    by (simp add: three_items_def)
  have n: "(3::nat) \<le> 5"
    by simp
  have s: "send_raises demo_notifier 1" "\<not> send_raises demo_notifier 0"
    "\<not> send_raises demo_notifier 2"
    by (simp_all add: demo_notifier_def)
  from forwarder_keeps_order_and_drops_failures[OF q demo_colors(1,2,3) n, of demo_notifier 7]
  show ?thesis
    using s by (simp add: empty_world_def demo_notifier_def)
qed

text \<open>
  C10: when the colour of the dequeued item, with its leading \<open>#\<close> characters
  stripped, is not accepted by \<open>int(..., 16)\<close>, the conversion raises inside the
  \<open>try\<close>: the error is printed, \<open>channel.send\<close> is not called and nothing is
  delivered, the item is gone from the queue, and the next passes of the loop go on
  with the items behind it.
\<close>

theorem forwarder_drops_item_with_bad_color:
  fixes nt :: notifier and chan :: channel and w :: world
  defines "w1 \<equiv> w\<lparr>discord_message_queue := tl (discord_message_queue w),
    console := console w @ [Printed_Error ''Error sending message to Discord:'' ValueError]\<rparr>"
  assumes "discord_message_queue w = (m, h) # rest"
    and "py_int16 (lstrip (CHR ''#'') h) = None"
  shows "forwarder_iteration nt chan w = w1 \<and>
     send_calls w1 = send_calls w \<and> delivered w1 = delivered w \<and>
     discord_message_queue w1 = rest \<and>
     forwarder_loop nt chan (Suc n) w = forwarder_loop nt chan n w1 \<and>
     send_calls (forwarder_loop nt chan (Suc n) w) =
       send_calls w @
       concat (map (\<lambda>(m, h). case py_int16 (lstrip (CHR ''#'') h) of
                                 None \<Rightarrow> [] | Some v \<Rightarrow> [(chan, m, v)])
                (take n rest))"
proof -
  have a: "forwarder_iteration nt chan w = w1"
    unfolding w1_def using assms(2) by (simp add: forwarder_iteration_bad_color[OF assms(2,3)])
  have b: "send_calls w1 = send_calls w" "delivered w1 = delivered w"
    "discord_message_queue w1 = rest"
    using assms(2) by (simp_all add: w1_def)
  have c: "forwarder_loop nt chan (Suc n) w = forwarder_loop nt chan n w1"
    by (simp add: a)
  have d: "send_calls (forwarder_loop nt chan (Suc n) w) =
       send_calls w @
       concat (map (\<lambda>(m, h). case py_int16 (lstrip (CHR ''#'') h) of
                                 None \<Rightarrow> [] | Some v \<Rightarrow> [(chan, m, v)])
                (take n rest))"
    unfolding c by (simp add: forwarder_loop_send_calls b)
  from a b c d show ?thesis by blast
qed

theorem forwarder_drops_item_with_bad_color_witness:
  "py_int16 (lstrip (CHR ''#'') ''green'') = None \<and>
   forwarder_iteration demo_notifier 7 (empty_world\<lparr>discord_message_queue := bad_color_items\<rparr>) =
     empty_world\<lparr>discord_message_queue := [(''C'', ''#FF0000'')],
       console := [Printed_Error ''Error sending message to Discord:'' ValueError]\<rparr> \<and>
   send_calls (forwarder_loop demo_notifier 7 2
       (empty_world\<lparr>discord_message_queue := bad_color_items\<rparr>)) = [(7, ''C'', 16711680)]"
proof -
  have q: "discord_message_queue (empty_world\<lparr>discord_message_queue := bad_color_items\<rparr>) =
      (''A'', ''green'') # [(''C'', ''#FF0000'')]"
    by (simp add: bad_color_items_def)
  note th = forwarder_drops_item_with_bad_color[OF q demo_colors(5), of demo_notifier 7 "Suc 0"]
  have 1: "forwarder_iteration demo_notifier 7
      (empty_world\<lparr>discord_message_queue := bad_color_items\<rparr>) =
     empty_world\<lparr>discord_message_queue := [(''C'', ''#FF0000'')],
       console := [Printed_Error ''Error sending message to Discord:'' ValueError]\<rparr>"
    using th[THEN conjunct1] by (simp add: empty_world_def bad_color_items_def)
  have 2: "send_calls (forwarder_loop demo_notifier 7 2
       (empty_world\<lparr>discord_message_queue := bad_color_items\<rparr>)) = [(7, ''C'', 16711680)]"
    using th[THEN conjunct2, THEN conjunct2, THEN conjunct2, THEN conjunct2, THEN conjunct2]
    by (simp add: numeral_2_eq_2 empty_world_def demo_colors)
  from demo_colors(5) 1 2 show ?thesis by blast
qed

text \<open>
  C9: without a bot token (absent or empty) \<open>start_discord_bot\<close> prints an error
  and returns. Without a channel id (the lookup is then made with 0), or with an
  id that the client resolves to no channel, the forwarder prints an error and
  returns before its loop. In each case the result is a normal return, not an
  exception; nothing is sent and the queue is left as it was.
\<close>

theorem forwarder_without_token_or_channel_returns:
  "((bot_token dc = None \<or> bot_token dc = Some []) \<longrightarrow>
      start_discord_bot dc nt n w =
        Inr (w\<lparr>console := console w @ [Printed ''No bot token provided in config.'']\<rparr>)) \<and>
   (channel_id dc = None \<longrightarrow>
      send_messages_from_queue dc nt n w =
        Inr (w\<lparr>console := console w @
               [Printed ''Channel not found. Check your channel_id in config.'']\<rparr>)) \<and>
   (channel_id dc = Some i \<and> get_channel nt i = None \<longrightarrow>
      send_messages_from_queue dc nt n w =
        Inr (w\<lparr>console := console w @
               [Printed ''Channel not found. Check your channel_id in config.'']\<rparr>)) \<and>
   (bot_token dc = Some tok \<and> tok \<noteq> [] \<and> login_ok nt tok \<and>
    get_channel nt (case channel_id dc of None \<Rightarrow> 0 | Some i \<Rightarrow> i) = None \<longrightarrow>
      start_discord_bot dc nt n w =
        Inr (w\<lparr>console := console w @
               [Printed (''Logged in as '' @ user_repr nt),
                Printed ''Channel not found. Check your channel_id in config.'']\<rparr>))"
proof (intro conjI impI)
  assume "bot_token dc = None \<or> bot_token dc = Some []"
  then show "start_discord_bot dc nt n w =
      Inr (w\<lparr>console := console w @ [Printed ''No bot token provided in config.'']\<rparr>)"
    by (auto simp: start_discord_bot_def print_line_def)
next
  assume "channel_id dc = None"
  then show "send_messages_from_queue dc nt n w =
      Inr (w\<lparr>console := console w @
             [Printed ''Channel not found. Check your channel_id in config.'']\<rparr>)"
    by (simp add: send_messages_from_queue_def get_channel_def print_line_def)
next
  assume "channel_id dc = Some i \<and> get_channel nt i = None"
  then show "send_messages_from_queue dc nt n w =
      Inr (w\<lparr>console := console w @
             [Printed ''Channel not found. Check your channel_id in config.'']\<rparr>)"
    by (simp add: send_messages_from_queue_def print_line_def)
next
  assume "bot_token dc = Some tok \<and> tok \<noteq> [] \<and> login_ok nt tok \<and>
    get_channel nt (case channel_id dc of None \<Rightarrow> 0 | Some i \<Rightarrow> i) = None"
  then show "start_discord_bot dc nt n w =
      Inr (w\<lparr>console := console w @
             [Printed (''Logged in as '' @ user_repr nt),
              Printed ''Channel not found. Check your channel_id in config.'']\<rparr>)"
    by (simp add: start_discord_bot_def send_messages_from_queue_def print_line_def)
qed

theorem forwarder_without_token_or_channel_returns_witness:
  "bot_token (discord_config quiet_config) = None \<and>
   channel_id (discord_config quiet_config) = None \<and>
   start_discord_bot (discord_config quiet_config) demo_notifier 5
       (empty_world\<lparr>discord_message_queue := three_items\<rparr>) =
     Inr (empty_world\<lparr>discord_message_queue := three_items,
            console := [Printed ''No bot token provided in config.'']\<rparr>) \<and>
   send_messages_from_queue (discord_config quiet_config) demo_notifier 5
       (empty_world\<lparr>discord_message_queue := three_items\<rparr>) =
     Inr (empty_world\<lparr>discord_message_queue := three_items,
            console := [Printed ''Channel not found. Check your channel_id in config.'']\<rparr>) \<and>
   get_channel demo_notifier 41 = None \<and>
   start_discord_bot \<lparr>enabled = Some True, bot_token = Some ''token'', channel_id = Some 41\<rparr>
       demo_notifier 5 (empty_world\<lparr>discord_message_queue := three_items\<rparr>) =
     Inr (empty_world\<lparr>discord_message_queue := three_items,
            console := [Printed ''Logged in as LogBot'',
                        Printed ''Channel not found. Check your channel_id in config.'']\<rparr>)"
proof -
  have t: "bot_token (discord_config quiet_config) = None"
    "channel_id (discord_config quiet_config) = None"
    by (simp_all add: quiet_config_def)
  have g: "get_channel demo_notifier 41 = None"
    by (simp add: get_channel_def demo_notifier_def)
  note th1 = forwarder_without_token_or_channel_returns[of "discord_config quiet_config"
      demo_notifier 5 "empty_world\<lparr>discord_message_queue := three_items\<rparr>"]
  note th2 = forwarder_without_token_or_channel_returns[of
      "\<lparr>enabled = Some True, bot_token = Some ''token'', channel_id = Some 41\<rparr>"
      demo_notifier 5 "empty_world\<lparr>discord_message_queue := three_items\<rparr>" 41 "''token''"]
  have 1: "start_discord_bot (discord_config quiet_config) demo_notifier 5
       (empty_world\<lparr>discord_message_queue := three_items\<rparr>) =
     Inr (empty_world\<lparr>discord_message_queue := three_items,
            console := [Printed ''No bot token provided in config.'']\<rparr>)"
    using th1[THEN conjunct1] t by (simp add: empty_world_def)
  have 2: "send_messages_from_queue (discord_config quiet_config) demo_notifier 5
       (empty_world\<lparr>discord_message_queue := three_items\<rparr>) =
     Inr (empty_world\<lparr>discord_message_queue := three_items,
            console := [Printed ''Channel not found. Check your channel_id in config.'']\<rparr>)"
    using th1[THEN conjunct2, THEN conjunct1] t by (simp add: empty_world_def)
  have 3: "start_discord_bot \<lparr>enabled = Some True, bot_token = Some ''token'', channel_id = Some 41\<rparr>
       demo_notifier 5 (empty_world\<lparr>discord_message_queue := three_items\<rparr>) =
     Inr (empty_world\<lparr>discord_message_queue := three_items,
            console := [Printed ''Logged in as LogBot'',
                        Printed ''Channel not found. Check your channel_id in config.'']\<rparr>)"
    using th2[THEN conjunct2, THEN conjunct2, THEN conjunct2] g
    by (simp add: empty_world_def demo_notifier_def)
  from t 1 2 g 3 show ?thesis by blast
qed

end
